theory Spec2Isabelle
  imports Complex_Main "HOL-Library.Sublist" "HOL-Library.Log_Nat"
begin

section \<open>JavaScript values and string primitives\<close>

text \<open>
  The budget sheet (\<^verbatim>\<open>BudgetSheet\<close> in \<^verbatim>\<open>rich-text-editor.tsx\<close>) and the response
  editor (\<^verbatim>\<open>response-editor.tsx\<close>) are written in TypeScript. A \<^verbatim>\<open>number\<close> is an IEEE-754
  double. The numbers a row stores (hours, rates) are finite; each is given by its exact
  value, a \<open>rat\<close>. The result of \<^verbatim>\<open>parseFloat\<close> on the text of a number input is a
  \<open>js_number\<close>: a finite number, or \<^verbatim>\<open>NaN\<close> for text that is not a number.
\<close>

datatype js_number = NaN | Num rat

text \<open>\<^verbatim>\<open>x || null\<close> and \<^verbatim>\<open>x || 0\<close> on a number: \<^verbatim>\<open>NaN\<close> and \<^verbatim>\<open>0\<close> are falsy.\<close>

fun or_null :: "js_number \<Rightarrow> rat option" where
  "or_null NaN = None"
| "or_null (Num x) = (if x = 0 then None else Some x)"

fun or_zero :: "js_number \<Rightarrow> rat" where
  "or_zero NaN = 0"
| "or_zero (Num x) = (if x = 0 then 0 else x)"

subsection \<open>Double arithmetic\<close>

text \<open>
  The result of an addition or a multiplication is a \<open>double\<close>: finite, an infinity or
  \<^verbatim>\<open>NaN\<close>. On finite doubles the result is the exact sum or product rounded to the nearest
  double, a tie going to the even significand (\<open>round64\<close>): a double has a significand of
  53 bits and an exponent of its last bit of at least \<open>-1074\<close>, and a rounded magnitude of
  \<open>2 ^ 1024\<close> or more is an infinity. The two zeros of IEEE-754 are one value here; sums,
  products and comparisons do not tell them apart.
\<close>

datatype double = Finite rat | PlusInfinity | MinusInfinity | NotANumber

text \<open>\<open>floor_log2 x\<close> is the \<open>k\<close> with \<open>2 ^ k \<le> x < 2 ^ (k + 1)\<close>, for \<open>x > 0\<close>.\<close>

definition floor_log2 :: "rat \<Rightarrow> int" where
  "floor_log2 x =
     (let k = bitlen (fst (quotient_of x)) - bitlen (snd (quotient_of x))
      in if 2 powi k \<le> x then k else k - 1)"

definition round_half_even :: "rat \<Rightarrow> int" where
  "round_half_even x =
     (let f = \<lfloor>x\<rfloor>; r = x - of_int f
      in if r < 1 / 2 then f else if 1 / 2 < r then f + 1 else if even f then f else f + 1)"

definition round64 :: "rat \<Rightarrow> double" where
  "round64 x =
     (if x = 0 then Finite 0
      else (let e = max (floor_log2 \<bar>x\<bar> - 52) (- 1074);
                y = of_int (round_half_even (x / 2 powi e)) * 2 powi e
            in if 2 ^ 1024 \<le> y then PlusInfinity
               else if y \<le> - (2 ^ 1024) then MinusInfinity
               else Finite y))"

fun fadd :: "double \<Rightarrow> double \<Rightarrow> double" where
  "fadd (Finite a) (Finite b) = round64 (a + b)"
| "fadd NotANumber _ = NotANumber"
| "fadd _ NotANumber = NotANumber"
| "fadd PlusInfinity MinusInfinity = NotANumber"
| "fadd MinusInfinity PlusInfinity = NotANumber"
| "fadd PlusInfinity _ = PlusInfinity"
| "fadd _ PlusInfinity = PlusInfinity"
| "fadd MinusInfinity _ = MinusInfinity"
| "fadd _ MinusInfinity = MinusInfinity"

text \<open>The sign of a double: \<open>1\<close>, \<open>-1\<close>, or \<open>0\<close> for a zero and for \<^verbatim>\<open>NaN\<close>.\<close>

fun fsign :: "double \<Rightarrow> rat" where
  "fsign (Finite a) = sgn a"
| "fsign PlusInfinity = 1"
| "fsign MinusInfinity = - 1"
| "fsign NotANumber = 0"

text \<open>A product with an infinity is \<^verbatim>\<open>NaN\<close> when the other factor is zero.\<close>

fun fmul :: "double \<Rightarrow> double \<Rightarrow> double" where
  "fmul (Finite a) (Finite b) = round64 (a * b)"
| "fmul NotANumber _ = NotANumber"
| "fmul _ NotANumber = NotANumber"
| "fmul a b =
     (if fsign a * fsign b = 0 then NotANumber
      else if 0 < fsign a * fsign b then PlusInfinity
      else MinusInfinity)"

text \<open>
  Strings are \<open>string\<close>; titles are taken to be ASCII, where \<^verbatim>\<open>toLowerCase\<close> maps
  \<^verbatim>\<open>A\<close>..\<^verbatim>\<open>Z\<close> to \<^verbatim>\<open>a\<close>..\<^verbatim>\<open>z\<close> and leaves every other character alone.
  \<^verbatim>\<open>s.includes(p)\<close> holds when \<open>p\<close> occurs in \<open>s\<close> as a contiguous substring.
\<close>

definition lower_char :: "char \<Rightarrow> char" where
  "lower_char c =
     (case map_of (zip ''ABCDEFGHIJKLMNOPQRSTUVWXYZ'' ''abcdefghijklmnopqrstuvwxyz'') c of
        None \<Rightarrow> c
      | Some l \<Rightarrow> l)"

definition toLowerCase :: "string \<Rightarrow> string" where
  "toLowerCase s = map lower_char s"

definition js_includes :: "string \<Rightarrow> string \<Rightarrow> bool" where
  "js_includes s p = sublist p s"

section \<open>Team members and budget rows\<close>

text \<open>
  \<^verbatim>\<open>User\<close> is a row of the \<^verbatim>\<open>users\<close> table of \<^verbatim>\<open>shared/schema.ts\<close>, with the columns the
  budget sheet and the response editor read (\<^verbatim>\<open>username\<close>, \<^verbatim>\<open>password\<close>, \<^verbatim>\<open>email\<close> and
  \<^verbatim>\<open>role\<close> are not read by the functions below). \<^verbatim>\<open>title\<close> is a nullable text column.
  \<^verbatim>\<open>hourlyRate\<close> is a nullable \<^verbatim>\<open>decimal(10, 2)\<close> column, which reaches the client as a
  decimal string such as \<^verbatim>\<open>"0.00"\<close>: a non-empty string, so truthy whatever its value, and
  read back by \<^verbatim>\<open>parseFloat(user.hourlyRate.toString())\<close>. The model keeps the value of that
  string, \<open>None\<close> for \<^verbatim>\<open>null\<close>.
\<close>

record User =
  user_id :: string
  fullName :: string
  user_title :: "string option"
  hourlyRate :: "rat option"

text \<open>
  \<^verbatim>\<open>interface BudgetRow\<close>. \<^verbatim>\<open>customTitle\<close> is declared a string, but \<^verbatim>\<open>getRoleCategory\<close>
  reads it through \<^verbatim>\<open>?.\<close> and \<^verbatim>\<open>updateRow\<close> accepts \<^verbatim>\<open>null\<close> for any field, so the
  model admits a missing title.
\<close>

record BudgetRow =
  row_id :: nat
  userId :: string
  customTitle :: "string option"
  customRate :: "rat option"
  year1 :: rat
  year2 :: rat
  year3 :: rat
  year4 :: rat
  year5 :: rat

text \<open>The year of a column, \<^verbatim>\<open>1 | 2 | 3 | 4 | 5\<close>, and the field \<^verbatim>\<open>row[`year${year}`]\<close>.\<close>

datatype year = Y1 | Y2 | Y3 | Y4 | Y5

fun hours :: "BudgetRow \<Rightarrow> year \<Rightarrow> rat" where
  "hours r Y1 = year1 r"
| "hours r Y2 = year2 r"
| "hours r Y3 = year3 r"
| "hours r Y4 = year4 r"
| "hours r Y5 = year5 r"

fun set_hours :: "year \<Rightarrow> rat \<Rightarrow> BudgetRow \<Rightarrow> BudgetRow" where
  "set_hours Y1 v r = r\<lparr>year1 := v\<rparr>"
| "set_hours Y2 v r = r\<lparr>year2 := v\<rparr>"
| "set_hours Y3 v r = r\<lparr>year3 := v\<rparr>"
| "set_hours Y4 v r = r\<lparr>year4 := v\<rparr>"
| "set_hours Y5 v r = r\<lparr>year5 := v\<rparr>"

record HourlyRates =
  principal :: rat
  consultant :: rat
  research_associate :: rat
  managing_director :: rat
  copy_editor :: rat
  default_rate :: rat

definition DEFAULT_HOURLY_RATES :: HourlyRates where
  "DEFAULT_HOURLY_RATES =
     \<lparr>principal = 250, consultant = 175, research_associate = 125,
      managing_director = 300, copy_editor = 100, default_rate = 150\<rparr>"

section \<open>Rate and role resolution\<close>

text \<open>\<^verbatim>\<open>users.find(u => u.id === userId)\<close> is \<open>find\<close>: the first user with that id, if any.\<close>

definition getDefaultRate :: "User list \<Rightarrow> string \<Rightarrow> rat" where
  "getDefaultRate users uid =
     (case find (\<lambda>u. user_id u = uid) users of
        None \<Rightarrow> default_rate DEFAULT_HOURLY_RATES
      | Some user \<Rightarrow>
          (let title = (case user_title user of None \<Rightarrow> '''' | Some t \<Rightarrow> toLowerCase t) in
           if js_includes title ''principal'' then principal DEFAULT_HOURLY_RATES
           else if js_includes title ''managing'' \<or> js_includes title ''director''
             then managing_director DEFAULT_HOURLY_RATES
           else if js_includes title ''consultant'' then consultant DEFAULT_HOURLY_RATES
           else if js_includes title ''research'' \<or> js_includes title ''associate''
             then research_associate DEFAULT_HOURLY_RATES
           else if js_includes title ''copy'' \<or> js_includes title ''editor''
             then copy_editor DEFAULT_HOURLY_RATES
           else (case hourlyRate user of
                   None \<Rightarrow> default_rate DEFAULT_HOURLY_RATES
                 | Some h \<Rightarrow> h)))"

definition getEffectiveRate :: "User list \<Rightarrow> BudgetRow \<Rightarrow> rat" where
  "getEffectiveRate users row =
     (case customRate row of
        Some r \<Rightarrow> r
      | None \<Rightarrow> getDefaultRate users (userId row))"

definition getRoleCategory :: "BudgetRow \<Rightarrow> string" where
  "getRoleCategory row =
     (let title = (case customTitle row of None \<Rightarrow> '''' | Some t \<Rightarrow> toLowerCase t) in
      if js_includes title ''principal'' then ''principal''
      else if js_includes title ''managing'' \<or> js_includes title ''director''
        then ''managing_director''
      else if js_includes title ''consultant'' then ''consultant''
      else if js_includes title ''research'' \<or> js_includes title ''associate''
        then ''research_associate''
      else if js_includes title ''copy'' \<or> js_includes title ''editor'' then ''copy_editor''
      else ''default'')"

section \<open>Totals\<close>

text \<open>
  The totals add and multiply doubles, in the order of the source:
  \<^verbatim>\<open>row.year1 + row.year2 + row.year3 + row.year4 + row.year5\<close> associates to the left.
\<close>

definition calculateRowTotal :: "User list \<Rightarrow> BudgetRow \<Rightarrow> double" where
  "calculateRowTotal users row =
     (let rate = Finite (getEffectiveRate users row);
          totalHours =
            fadd (fadd (fadd (fadd (Finite (year1 row)) (Finite (year2 row)))
                             (Finite (year3 row)))
                       (Finite (year4 row)))
                 (Finite (year5 row))
      in fmul totalHours rate)"







section \<open>Editing rows\<close>

text \<open>
  \<^verbatim>\<open>updateRow(id, field, value)\<close> replaces one field of the row with that id. The sheet
  calls it with four kinds of field and value, which \<open>field_edit\<close> lists: the team member
  select (\<^verbatim>\<open>userId\<close>, which also resets the title to the new member's), the title input,
  the rate input and the five hour inputs.
\<close>

datatype field_edit =
    SetUserId string
  | SetCustomTitle string
  | SetCustomRate "rat option"
  | SetYear year rat

fun set_field :: "User list \<Rightarrow> field_edit \<Rightarrow> BudgetRow \<Rightarrow> BudgetRow" where
  "set_field users (SetUserId v) r =
     r\<lparr>userId := v,
       customTitle :=
         Some (case find (\<lambda>u. user_id u = v) users of
                 None \<Rightarrow> ''''
               | Some newUser \<Rightarrow> (case user_title newUser of None \<Rightarrow> '''' | Some t \<Rightarrow> t))\<rparr>"
| "set_field users (SetCustomTitle v) r = r\<lparr>customTitle := Some v\<rparr>"
| "set_field users (SetCustomRate v) r = r\<lparr>customRate := v\<rparr>"
| "set_field users (SetYear y v) r = set_hours y v r"

definition updateRow :: "User list \<Rightarrow> BudgetRow list \<Rightarrow> nat \<Rightarrow> field_edit \<Rightarrow> BudgetRow list" where
  "updateRow users rows i e =
     map (\<lambda>r. if row_id r \<noteq> i then r else set_field users e r) rows"

text \<open>
  The \<^verbatim>\<open>onChange\<close> handlers of the rate input and of the hour inputs. Their last argument
  is \<^verbatim>\<open>parseFloat(e.target.value)\<close>.
\<close>

definition rateInput_onChange ::
    "User list \<Rightarrow> BudgetRow list \<Rightarrow> nat \<Rightarrow> js_number \<Rightarrow> BudgetRow list" where
  "rateInput_onChange users rows i parsed = updateRow users rows i (SetCustomRate (or_null parsed))"

definition hoursInput_onChange ::
    "User list \<Rightarrow> BudgetRow list \<Rightarrow> nat \<Rightarrow> year \<Rightarrow> js_number \<Rightarrow> BudgetRow list" where
  "hoursInput_onChange users rows i y parsed = updateRow users rows i (SetYear y (or_zero parsed))"

text \<open>
  The items that \<^verbatim>\<open>saveMutation\<close> posts to \<^verbatim>\<open>/api/rfps/:id/budget\<close>: for each row and each
  of the five years, the row's person, the year and \<^verbatim>\<open>row[`year${year}`] || 0\<close>.
\<close>

record BudgetItemInput =
  item_userId :: string
  item_year :: year
  item_hours :: rat

definition saveMutation_items :: "BudgetRow list \<Rightarrow> BudgetItemInput list" where
  "saveMutation_items budgetRows =
     concat (map (\<lambda>row. map (\<lambda>y. \<lparr>item_userId = userId row, item_year = y,
                                    item_hours = or_zero (Num (hours row y))\<rparr>)
                           [Y1, Y2, Y3, Y4, Y5])
                 budgetRows)"

section \<open>The rate precedence as the specification words it\<close>

text \<open>
  The specification gives the title heuristic as a priority list of keyword groups, each
  with its rate; the first group with a keyword in the lowercased title wins.
\<close>

definition title_rate_table :: "(string list \<times> rat) list" where
  "title_rate_table =
     [([''principal''], 250),
      ([''managing'', ''director''], 300),
      ([''consultant''], 175),
      ([''research'', ''associate''], 125),
      ([''copy'', ''editor''], 100)]"

fun first_match :: "string \<Rightarrow> (string list \<times> 'a) list \<Rightarrow> 'a option" where
  "first_match t [] = None"
| "first_match t ((keys, v) # rest) =
     (if list_ex (\<lambda>k. sublist k t) keys then Some v else first_match t rest)"

definition spec_effectiveRate :: "BudgetRow \<Rightarrow> User \<Rightarrow> rat" where
  "spec_effectiveRate row person =
     (case customRate row of
        Some r \<Rightarrow> r
      | None \<Rightarrow>
          (case first_match (case user_title person of None \<Rightarrow> '''' | Some t \<Rightarrow> toLowerCase t)
                  title_rate_table of
             Some d \<Rightarrow> d
           | None \<Rightarrow> (case hourlyRate person of Some h \<Rightarrow> h | None \<Rightarrow> 150)))"

text \<open>The role categories, in the same priority order.\<close>

definition title_category_table :: "(string list \<times> string) list" where
  "title_category_table =
     [([''principal''], ''principal''),
      ([''managing'', ''director''], ''managing_director''),
      ([''consultant''], ''consultant''),
      ([''research'', ''associate''], ''research_associate''),
      ([''copy'', ''editor''], ''copy_editor'')]"

section \<open>Response sections\<close>

text \<open>
  A row of the \<^verbatim>\<open>response_sections\<close> table of \<^verbatim>\<open>shared/schema.ts\<close>. \<^verbatim>\<open>isLocked\<close> is a
  boolean column with a default and no \<^verbatim>\<open>notNull\<close>, so it may hold \<^verbatim>\<open>null\<close>;
  \<^verbatim>\<open>assignedUserId\<close> and \<^verbatim>\<open>lockedByPmId\<close> are nullable and reference \<^verbatim>\<open>users.id\<close>.
  Timestamps are numbers.
\<close>

record ResponseSection =
  section_id :: nat
  responseId :: nat
  section_title :: string
  content :: string
  orderIndex :: int
  assignedUserId :: "string option"
  isLocked :: "bool option"
  lockedByPmId :: "string option"
  createdAt :: nat
  updatedAt :: nat

text \<open>The truthiness of a \<^verbatim>\<open>boolean | null\<close>: only \<^verbatim>\<open>true\<close> is truthy.\<close>

definition js_true :: "bool option \<Rightarrow> bool" where
  "js_true b = (b = Some True)"

text \<open>
  \<^verbatim>\<open>canEdit\<close> of the response editor. The component fixes \<^verbatim>\<open>isPM\<close> and \<^verbatim>\<open>currentUserId\<close>
  as constants that stand for the auth context; they are parameters here.
\<close>

definition canEdit :: "bool \<Rightarrow> string \<Rightarrow> ResponseSection \<Rightarrow> bool" where
  "canEdit isPM currentUserId sec =
     (isPM \<or> (\<not> js_true (isLocked sec) \<and> assignedUserId sec = Some currentUserId))"

section \<open>Storage and the PATCH route of a section\<close>

text \<open>
  The body of \<^verbatim>\<open>PATCH /api/response-sections/:id\<close> is a partial section: a field is absent
  (\<open>None\<close>) or present with its new value, which for a nullable column may be \<^verbatim>\<open>null\<close>.
  The fields are the columns the response editor sends.
\<close>

record SectionPatch =
  p_title :: "string option"
  p_content :: "string option"
  p_orderIndex :: "int option"
  p_assignedUserId :: "string option option"
  p_isLocked :: "bool option option"
  p_lockedByPmId :: "string option option"

definition empty_patch :: SectionPatch where
  "empty_patch =
     \<lparr>p_title = None, p_content = None, p_orderIndex = None,
      p_assignedUserId = None, p_isLocked = None, p_lockedByPmId = None\<rparr>"

text \<open>\<^verbatim>\<open>.set({ ...updateData, updatedAt: new Date() })\<close> on one row.\<close>

definition apply_patch :: "SectionPatch \<Rightarrow> nat \<Rightarrow> ResponseSection \<Rightarrow> ResponseSection" where
  "apply_patch p now s =
     s\<lparr>section_title := (case p_title p of None \<Rightarrow> section_title s | Some v \<Rightarrow> v),
       content := (case p_content p of None \<Rightarrow> content s | Some v \<Rightarrow> v),
       orderIndex := (case p_orderIndex p of None \<Rightarrow> orderIndex s | Some v \<Rightarrow> v),
       assignedUserId := (case p_assignedUserId p of None \<Rightarrow> assignedUserId s | Some v \<Rightarrow> v),
       isLocked := (case p_isLocked p of None \<Rightarrow> isLocked s | Some v \<Rightarrow> v),
       lockedByPmId := (case p_lockedByPmId p of None \<Rightarrow> lockedByPmId s | Some v \<Rightarrow> v),
       updatedAt := now\<rparr>"

text \<open>
  A reference to \<^verbatim>\<open>users.id\<close> is kept by the database: a new value that is not
  \<^verbatim>\<open>null\<close> must be the id of a user.
\<close>

definition references_user :: "User list \<Rightarrow> string option option \<Rightarrow> bool" where
  "references_user users v =
     (case v of
        None \<Rightarrow> True
      | Some None \<Rightarrow> True
      | Some (Some u) \<Rightarrow> u \<in> set (map user_id users))"

text \<open>An \<^verbatim>\<open>integer\<close> column holds 32 bits.\<close>

definition int4 :: "int \<Rightarrow> bool" where
  "int4 n = (- 2147483648 \<le> n \<and> n \<le> 2147483647)"

datatype 'a query_result = Throws | Returns 'a

text \<open>
  \<^verbatim>\<open>updateResponseSection(id, updateData)\<close>: the update of the rows with that id, returning
  the first of them, or \<^verbatim>\<open>undefined\<close> when there is none. The query throws when the new
  \<^verbatim>\<open>orderIndex\<close> is out of the column's range, whether or not a row has the id, and when a
  written row would break a reference; the table is then as it was.
\<close>

definition updateResponseSection ::
    "User list \<Rightarrow> ResponseSection list \<Rightarrow> nat \<Rightarrow> SectionPatch \<Rightarrow> nat
       \<Rightarrow> ResponseSection option query_result \<times> ResponseSection list" where
  "updateResponseSection users tbl i updateData now =
     (if \<not> (case p_orderIndex updateData of None \<Rightarrow> True | Some n \<Rightarrow> int4 n)
      then (Throws, tbl)
      else if find (\<lambda>s. section_id s = i) tbl = None then (Returns None, tbl)
      else if references_user users (p_assignedUserId updateData)
              \<and> references_user users (p_lockedByPmId updateData)
      then (let tbl' = map (\<lambda>s. if section_id s = i then apply_patch updateData now s else s) tbl
            in (Returns (find (\<lambda>s. section_id s = i) tbl'), tbl'))
      else (Throws, tbl))"

datatype http_error = NotFound_404 | ServerError_500

text \<open>The route: 404 when no section has the id, 500 when the storage throws.\<close>

definition patch_response_section ::
    "User list \<Rightarrow> ResponseSection list \<Rightarrow> nat \<Rightarrow> SectionPatch \<Rightarrow> nat
       \<Rightarrow> (http_error + ResponseSection) \<times> ResponseSection list" where
  "patch_response_section users tbl i body now =
     (case updateResponseSection users tbl i body now of
        (Throws, tbl') \<Rightarrow> (Inl ServerError_500, tbl')
      | (Returns None, tbl') \<Rightarrow> (Inl NotFound_404, tbl')
      | (Returns (Some s), tbl') \<Rightarrow> (Inr s, tbl'))"

section \<open>The response editor's lock and assignment requests\<close>

text \<open>
  The two mutations of the response editor send a \<^verbatim>\<open>PATCH\<close> with these bodies:
  \<^verbatim>\<open>{ isLocked, lockedByPmId: isLocked ? currentUserId : null }\<close> and
  \<^verbatim>\<open>{ assignedUserId: userId }\<close>.
\<close>

definition toggleLock_body :: "string \<Rightarrow> bool \<Rightarrow> SectionPatch" where
  "toggleLock_body currentUserId locked =
     empty_patch\<lparr>p_isLocked := Some (Some locked),
                  p_lockedByPmId := Some (if locked then Some currentUserId else None)\<rparr>"

definition assignUser_body :: "string option \<Rightarrow> SectionPatch" where
  "assignUser_body uid = empty_patch\<lparr>p_assignedUserId := Some uid\<rparr>"

definition toggleLockMutation ::
    "User list \<Rightarrow> ResponseSection list \<Rightarrow> string \<Rightarrow> nat \<Rightarrow> bool \<Rightarrow> nat
       \<Rightarrow> (http_error + ResponseSection) \<times> ResponseSection list" where
  "toggleLockMutation users tbl currentUserId sectionId locked now =
     patch_response_section users tbl sectionId (toggleLock_body currentUserId locked) now"

definition assignUserMutation ::
    "User list \<Rightarrow> ResponseSection list \<Rightarrow> nat \<Rightarrow> string option \<Rightarrow> nat
       \<Rightarrow> (http_error + ResponseSection) \<times> ResponseSection list" where
  "assignUserMutation users tbl sectionId uid now =
     patch_response_section users tbl sectionId (assignUser_body uid) now"

text \<open>
  The controls of a section card. The lock button is rendered for a proposal manager
  only and sends the negation of the section's flag; the assignee select is disabled
  unless the actor is a proposal manager. \<open>None\<close>: no request is sent.
\<close>

definition lockButton_onClick ::
    "bool \<Rightarrow> User list \<Rightarrow> ResponseSection list \<Rightarrow> string \<Rightarrow> ResponseSection \<Rightarrow> nat
       \<Rightarrow> ((http_error + ResponseSection) \<times> ResponseSection list) option" where
  "lockButton_onClick isPM users tbl currentUserId sec now =
     (if isPM
      then Some (toggleLockMutation users tbl currentUserId (section_id sec)
                   (\<not> js_true (isLocked sec)) now)
      else None)"

definition assigneeSelect_onValueChange ::
    "bool \<Rightarrow> User list \<Rightarrow> ResponseSection list \<Rightarrow> ResponseSection \<Rightarrow> string \<Rightarrow> nat
       \<Rightarrow> ((http_error + ResponseSection) \<times> ResponseSection list) option" where
  "assigneeSelect_onValueChange isPM users tbl sec v now =
     (if \<not> isPM then None
      else Some (assignUserMutation users tbl (section_id sec)
                   (if v = ''unassigned'' then None else Some v) now))"

text \<open>A section is locked exactly when it has a lock holder.\<close>

definition lock_consistent :: "ResponseSection \<Rightarrow> bool" where
  "lock_consistent s = (js_true (isLocked s) = (lockedByPmId s \<noteq> None))"

section \<open>Properties of the rate resolver\<close>

lemma toLowerCase_Principal_Managing_Director:
  "toLowerCase ''Principal Managing Director'' = ''principal managing director''"
  by (simp add: toLowerCase_def lower_char_def)

text \<open>
  Claim C1. For a row and the person its \<^verbatim>\<open>userId\<close> refers to, \<open>getEffectiveRate\<close> follows
  the precedence of the specification: the override when it is not null; else the first
  matching keyword group of the person's lowercased title, in the order principal (250),
  managing or director (300), consultant (175), research or associate (125), copy or
  editor (100); else the person's hourly rate when set; else 150. With no override, a
  person titled "Principal Managing Director" gets 250.
\<close>

theorem getEffectiveRate_precedence:
  assumes "find (\<lambda>u. user_id u = userId row) users = Some person"
  shows "getEffectiveRate users row = spec_effectiveRate row person
         \<and> (\<forall>r. customRate row = Some r \<longrightarrow> getEffectiveRate users row = r)
         \<and> (customRate row = None
              \<and> user_title person = Some ''Principal Managing Director''
              \<longrightarrow> getEffectiveRate users row = 250)"
proof -
  have spec: "getEffectiveRate users row = spec_effectiveRate row person"
    using assms
    by (simp add: getEffectiveRate_def spec_effectiveRate_def getDefaultRate_def
        title_rate_table_def DEFAULT_HOURLY_RATES_def js_includes_def Let_def
        split: option.splits)
  have override: "\<forall>r. customRate row = Some r \<longrightarrow> getEffectiveRate users row = r"
    by (simp add: getEffectiveRate_def)
  have pmd: "customRate row = None \<and> user_title person = Some ''Principal Managing Director''
          \<longrightarrow> getEffectiveRate users row = 250"
    using assms
    by (simp add: getEffectiveRate_def getDefaultRate_def DEFAULT_HOURLY_RATES_def
        js_includes_def Let_def toLowerCase_Principal_Managing_Director sublist_code(3))
  from spec override pmd show ?thesis by blast
qed

theorem getEffectiveRate_precedence_witness:
  "find (\<lambda>u. user_id u = ''u6'')
     [\<lparr>user_id = ''u6'', fullName = ''Rachel Brown'',
       user_title = Some ''Principal Managing Director'', hourlyRate = Some 350\<rparr>]
   = Some \<lparr>user_id = ''u6'', fullName = ''Rachel Brown'',
       user_title = Some ''Principal Managing Director'', hourlyRate = Some 350\<rparr>
   \<and> getEffectiveRate
       [\<lparr>user_id = ''u6'', fullName = ''Rachel Brown'',
         user_title = Some ''Principal Managing Director'', hourlyRate = Some 350\<rparr>]
       \<lparr>row_id = 1, userId = ''u6'', customTitle = Some ''Managing Director'',
        customRate = None, year1 = 10, year2 = 0, year3 = 0, year4 = 0, year5 = 0\<rparr> = 250
   \<and> getEffectiveRate
       [\<lparr>user_id = ''u6'', fullName = ''Rachel Brown'',
         user_title = Some ''Principal Managing Director'', hourlyRate = Some 350\<rparr>]
       \<lparr>row_id = 1, userId = ''u6'', customTitle = Some ''Managing Director'',
        customRate = None, year1 = 10, year2 = 0, year3 = 0, year4 = 0, year5 = 0\<rparr> \<noteq> 300"
  using getEffectiveRate_precedence
    [of "\<lparr>row_id = 1, userId = ''u6'', customTitle = Some ''Managing Director'',
          customRate = None, year1 = 10, year2 = 0, year3 = 0, year4 = 0, year5 = 0\<rparr>"
        "[\<lparr>user_id = ''u6'', fullName = ''Rachel Brown'',
           user_title = Some ''Principal Managing Director'', hourlyRate = Some 350\<rparr>]"
        "\<lparr>user_id = ''u6'', fullName = ''Rachel Brown'',
          user_title = Some ''Principal Managing Director'', hourlyRate = Some 350\<rparr>"]
  by simp

lemma toLowerCase_Principal: "toLowerCase ''Principal'' = ''principal''"
  by (simp add: toLowerCase_def lower_char_def)

lemma toLowerCase_Consultant: "toLowerCase ''Consultant'' = ''consultant''"
  by (simp add: toLowerCase_def lower_char_def)

lemma getEffectiveRate_cases:
  "getEffectiveRate users row =
     (case customRate row of
        Some r \<Rightarrow> r
      | None \<Rightarrow>
          (case find (\<lambda>u. user_id u = userId row) users of
             None \<Rightarrow> 150
           | Some person \<Rightarrow> spec_effectiveRate row person))"
  by (simp add: getEffectiveRate_def spec_effectiveRate_def getDefaultRate_def
      title_rate_table_def DEFAULT_HOURLY_RATES_def js_includes_def Let_def
      split: option.splits)

lemma getRoleCategory_table:
  "getRoleCategory row =
     (case first_match (case customTitle row of None \<Rightarrow> '''' | Some t \<Rightarrow> toLowerCase t)
             title_category_table of
        Some c \<Rightarrow> c
      | None \<Rightarrow> ''default'')"
  by (simp add: getRoleCategory_def title_category_table_def js_includes_def Let_def)

lemma getEffectiveRate_ignores_title:
  "getEffectiveRate users (row\<lparr>customTitle := t\<rparr>) = getEffectiveRate users row"
  by (simp add: getEffectiveRate_def split: option.splits)

lemma getRoleCategory_ignores_person:
  "getRoleCategory (row\<lparr>userId := u, customRate := c\<rparr>) = getRoleCategory row"
  by (simp add: getRoleCategory_def)

lemma getRoleCategory_Consultant:
  "customTitle row = Some ''Consultant'' \<Longrightarrow> getRoleCategory row = ''consultant''"
  by (simp add: getRoleCategory_def Let_def toLowerCase_Consultant js_includes_def
      sublist_code(3))

lemma getEffectiveRate_Principal:
  "find (\<lambda>u. user_id u = userId row) users = Some person \<Longrightarrow>
   user_title person = Some ''Principal'' \<Longrightarrow> customRate row = None \<Longrightarrow>
   getEffectiveRate users row = 250"
  by (simp add: getEffectiveRate_def getDefaultRate_def Let_def toLowerCase_Principal
      js_includes_def sublist_code(3) DEFAULT_HOURLY_RATES_def)

lemma updateRow_SetCustomTitle:
  "updateRow users rows i (SetCustomTitle t) =
     map (\<lambda>r. if row_id r = i then r\<lparr>customTitle := Some t\<rparr> else r) rows"
  by (auto simp: updateRow_def)

lemma getEffectiveRate_Consultant:
  "find (\<lambda>u. user_id u = userId row) users = Some person \<Longrightarrow>
   user_title person = Some ''Consultant'' \<Longrightarrow> customRate row = None \<Longrightarrow>
   getEffectiveRate users row = 175"
  by (simp add: getEffectiveRate_def getDefaultRate_def Let_def toLowerCase_Consultant
      js_includes_def sublist_code(3) DEFAULT_HOURLY_RATES_def)

lemma getRoleCategory_Principal:
  "customTitle row = Some ''Principal'' \<Longrightarrow> getRoleCategory row = ''principal''"
  by (simp add: getRoleCategory_def Let_def toLowerCase_Principal js_includes_def
      sublist_code(3))

lemma getEffectiveRate_person_title:
  "customRate row = None \<Longrightarrow> find (\<lambda>u. user_id u = userId row) users = Some person \<Longrightarrow>
   getEffectiveRate users row =
     (case first_match (case user_title person of None \<Rightarrow> '''' | Some t \<Rightarrow> toLowerCase t)
             title_rate_table of
        Some d \<Rightarrow> d
      | None \<Rightarrow> (case hourlyRate person of Some h \<Rightarrow> h | None \<Rightarrow> 150))"
  by (simp add: getEffectiveRate_cases spec_effectiveRate_def)

text \<open>
  Claim C4. \<open>getRoleCategory\<close> applies the keyword groups, in the same priority order and
  with the fallback \<^verbatim>\<open>default\<close>, to the row's own title and reads nothing else of the row.
  \<open>getEffectiveRate\<close> does not read the row's title: with no override it applies the
  keyword groups of the rates to the title of the person the row refers to. So a title
  edit leaves every effective rate as it was, and for a row with no override whose person
  is titled "Principal", setting the row's title to "Consultant" makes its category
  \<^verbatim>\<open>consultant\<close> while its effective rate stays 250. The other way round, a row titled
  "Principal" with no override whose person is titled "Consultant" has the category
  \<^verbatim>\<open>principal\<close> and the Consultant rate 175.
\<close>

theorem roleCategory_reads_row_title_rate_reads_person:
  "getRoleCategory row =
     (case first_match (case customTitle row of None \<Rightarrow> '''' | Some t \<Rightarrow> toLowerCase t)
             title_category_table of
        Some c \<Rightarrow> c
      | None \<Rightarrow> ''default'')
   \<and> getRoleCategory (row\<lparr>userId := u, customRate := c\<rparr>) = getRoleCategory row
   \<and> getEffectiveRate users (row\<lparr>customTitle := t\<rparr>) = getEffectiveRate users row
   \<and> map (getEffectiveRate users) (updateRow users rows i (SetCustomTitle t'))
       = map (getEffectiveRate users) rows
   \<and> (\<forall>r person. r \<in> set rows \<and> row_id r = i \<and> customRate r = None
         \<and> find (\<lambda>u. user_id u = userId r) users = Some person
         \<and> user_title person = Some ''Principal''
       \<longrightarrow> r\<lparr>customTitle := Some ''Consultant''\<rparr>
             \<in> set (updateRow users rows i (SetCustomTitle ''Consultant''))
           \<and> getRoleCategory (r\<lparr>customTitle := Some ''Consultant''\<rparr>) = ''consultant''
           \<and> getEffectiveRate users (r\<lparr>customTitle := Some ''Consultant''\<rparr>) = 250
           \<and> getEffectiveRate users r = 250)
   \<and> (\<forall>r person. customRate r = None
         \<and> find (\<lambda>u. user_id u = userId r) users = Some person
       \<longrightarrow> getEffectiveRate users r =
             (case first_match
                     (case user_title person of None \<Rightarrow> '''' | Some t \<Rightarrow> toLowerCase t)
                     title_rate_table of
                Some d \<Rightarrow> d
              | None \<Rightarrow> (case hourlyRate person of Some h \<Rightarrow> h | None \<Rightarrow> 150)))
   \<and> (\<forall>r person. customRate r = None
         \<and> find (\<lambda>u. user_id u = userId r) users = Some person
         \<and> user_title person = Some ''Consultant''
         \<and> customTitle r = Some ''Principal''
       \<longrightarrow> getRoleCategory r = ''principal'' \<and> getEffectiveRate users r = 175)"
proof -
  have rates: "map (getEffectiveRate users) (updateRow users rows i (SetCustomTitle t'))
       = map (getEffectiveRate users) rows"
    by (simp add: updateRow_SetCustomTitle getEffectiveRate_ignores_title)
  have scenario: "\<forall>r person. r \<in> set rows \<and> row_id r = i \<and> customRate r = None
         \<and> find (\<lambda>u. user_id u = userId r) users = Some person
         \<and> user_title person = Some ''Principal''
       \<longrightarrow> r\<lparr>customTitle := Some ''Consultant''\<rparr>
             \<in> set (updateRow users rows i (SetCustomTitle ''Consultant''))
           \<and> getRoleCategory (r\<lparr>customTitle := Some ''Consultant''\<rparr>) = ''consultant''
           \<and> getEffectiveRate users (r\<lparr>customTitle := Some ''Consultant''\<rparr>) = 250
           \<and> getEffectiveRate users r = 250"
    by (auto simp: updateRow_SetCustomTitle getRoleCategory_Consultant
        getEffectiveRate_Principal getEffectiveRate_ignores_title)
  have person: "\<forall>r person. customRate r = None
         \<and> find (\<lambda>u. user_id u = userId r) users = Some person
       \<longrightarrow> getEffectiveRate users r =
             (case first_match
                     (case user_title person of None \<Rightarrow> '''' | Some t \<Rightarrow> toLowerCase t)
                     title_rate_table of
                Some d \<Rightarrow> d
              | None \<Rightarrow> (case hourlyRate person of Some h \<Rightarrow> h | None \<Rightarrow> 150))"
    using getEffectiveRate_person_title by blast
  have converse: "\<forall>r person. customRate r = None
         \<and> find (\<lambda>u. user_id u = userId r) users = Some person
         \<and> user_title person = Some ''Consultant''
         \<and> customTitle r = Some ''Principal''
       \<longrightarrow> getRoleCategory r = ''principal'' \<and> getEffectiveRate users r = 175"
    using getRoleCategory_Principal getEffectiveRate_Consultant by blast
  from rates scenario person converse show ?thesis
    using getRoleCategory_table [where row = row]
      getRoleCategory_ignores_person [where row = row and u = u and c = c]
      getEffectiveRate_ignores_title [where users = users and row = row and t = t]
    by blast
qed

theorem roleCategory_reads_row_title_rate_reads_person_witness:
  "\<lparr>row_id = 1, userId = ''u2'', customTitle = Some ''Principal'', customRate = None,
     year1 = 10, year2 = 0, year3 = 0, year4 = 0, year5 = 0\<rparr>
     \<in> set [\<lparr>row_id = 1, userId = ''u2'', customTitle = Some ''Principal'', customRate = None,
              year1 = 10, year2 = 0, year3 = 0, year4 = 0, year5 = 0\<rparr>]
   \<and> find (\<lambda>u. user_id u = ''u2'')
       [\<lparr>user_id = ''u2'', fullName = ''Sarah Smith'', user_title = Some ''Principal'',
         hourlyRate = Some 250\<rparr>]
     = Some \<lparr>user_id = ''u2'', fullName = ''Sarah Smith'', user_title = Some ''Principal'',
         hourlyRate = Some 250\<rparr>
   \<and> updateRow
       [\<lparr>user_id = ''u2'', fullName = ''Sarah Smith'', user_title = Some ''Principal'',
         hourlyRate = Some 250\<rparr>]
       [\<lparr>row_id = 1, userId = ''u2'', customTitle = Some ''Principal'', customRate = None,
         year1 = 10, year2 = 0, year3 = 0, year4 = 0, year5 = 0\<rparr>]
       1 (SetCustomTitle ''Consultant'')
     = [\<lparr>row_id = 1, userId = ''u2'', customTitle = Some ''Consultant'', customRate = None,
         year1 = 10, year2 = 0, year3 = 0, year4 = 0, year5 = 0\<rparr>]
   \<and> getRoleCategory
       \<lparr>row_id = 1, userId = ''u2'', customTitle = Some ''Consultant'', customRate = None,
        year1 = 10, year2 = 0, year3 = 0, year4 = 0, year5 = 0\<rparr> = ''consultant''
   \<and> getEffectiveRate
       [\<lparr>user_id = ''u2'', fullName = ''Sarah Smith'', user_title = Some ''Principal'',
         hourlyRate = Some 250\<rparr>]
       \<lparr>row_id = 1, userId = ''u2'', customTitle = Some ''Consultant'', customRate = None,
        year1 = 10, year2 = 0, year3 = 0, year4 = 0, year5 = 0\<rparr> = 250
   \<and> find (\<lambda>u. user_id u = ''u3'')
       [\<lparr>user_id = ''u3'', fullName = ''Mike Johnson'', user_title = Some ''Consultant'',
         hourlyRate = Some 250\<rparr>]
     = Some \<lparr>user_id = ''u3'', fullName = ''Mike Johnson'', user_title = Some ''Consultant'',
         hourlyRate = Some 250\<rparr>
   \<and> getRoleCategory
       \<lparr>row_id = 2, userId = ''u3'', customTitle = Some ''Principal'', customRate = None,
        year1 = 10, year2 = 0, year3 = 0, year4 = 0, year5 = 0\<rparr> = ''principal''
   \<and> getEffectiveRate
       [\<lparr>user_id = ''u3'', fullName = ''Mike Johnson'', user_title = Some ''Consultant'',
         hourlyRate = Some 250\<rparr>]
       \<lparr>row_id = 2, userId = ''u3'', customTitle = Some ''Principal'', customRate = None,
        year1 = 10, year2 = 0, year3 = 0, year4 = 0, year5 = 0\<rparr> = 175"
proof -
  let ?sarah = "\<lparr>user_id = ''u2'', fullName = ''Sarah Smith'', user_title = Some ''Principal'',
                  hourlyRate = Some 250\<rparr>"
  let ?mike = "\<lparr>user_id = ''u3'', fullName = ''Mike Johnson'', user_title = Some ''Consultant'',
                 hourlyRate = Some 250\<rparr>"
  let ?row = "\<lparr>row_id = 1, userId = ''u2'', customTitle = Some ''Principal'',
                customRate = None,
                year1 = 10, year2 = 0, year3 = 0, year4 = 0, year5 = 0\<rparr>"
  let ?row2 = "\<lparr>row_id = 2, userId = ''u3'', customTitle = Some ''Principal'',
                 customRate = None,
                 year1 = 10, year2 = 0, year3 = 0, year4 = 0, year5 = 0\<rparr>"
  have first: "?row \<in> set [?row]
     \<and> find (\<lambda>u. user_id u = ''u2'') [?sarah] = Some ?sarah
     \<and> updateRow [?sarah] [?row] 1 (SetCustomTitle ''Consultant'')
         = [?row\<lparr>customTitle := Some ''Consultant''\<rparr>]
     \<and> getRoleCategory (?row\<lparr>customTitle := Some ''Consultant''\<rparr>) = ''consultant''
     \<and> getEffectiveRate [?sarah] (?row\<lparr>customTitle := Some ''Consultant''\<rparr>) = 250"
    using roleCategory_reads_row_title_rate_reads_person
      [where users = "[?sarah]" and rows = "[?row]"
         and i = 1 and t' = "''Consultant''" and t = "Some ''Consultant''"
         and u = "''u2''" and c = None and row = ?row]
    by (simp add: updateRow_def)
  have f: "find (\<lambda>u. user_id u = ''u3'') [?mike] = Some ?mike" by simp
  have second: "getRoleCategory ?row2 = ''principal'' \<and> getEffectiveRate [?mike] ?row2 = 175"
  proof -
    have "customRate ?row2 = None
         \<and> find (\<lambda>u. user_id u = userId ?row2) [?mike] = Some ?mike
         \<and> user_title ?mike = Some ''Consultant''
         \<and> customTitle ?row2 = Some ''Principal''"
      by simp
    with roleCategory_reads_row_title_rate_reads_person
      [where users = "[?mike]" and rows = "[?row2]"
         and i = 2 and t' = "''Consultant''" and t = "Some ''Consultant''"
         and u = "''u3''" and c = None and row = ?row2]
    show ?thesis by blast
  qed
  from first f second show ?thesis by simp
qed

lemma first_match_empty_title_rate: "first_match '''' title_rate_table = None"
  by (simp add: title_rate_table_def)

lemma first_match_empty_title_category: "first_match '''' title_category_table = None"
  by (simp add: title_category_table_def)

text \<open>
  Claim C9. The resolvers have no error result and give a value on every input:
  \<open>getEffectiveRate\<close> is 150 for a row without override whose \<^verbatim>\<open>userId\<close> is no user's,
  and for one whose person has no matching (or no) title and no hourly rate;
  \<open>getRoleCategory\<close> is \<^verbatim>\<open>default\<close> for a row whose title is missing or matches no
  keyword, and is always one of the six category names.
\<close>

theorem resolvers_fall_back_to_defaults:
  "getEffectiveRate users row =
     (case customRate row of
        Some r \<Rightarrow> r
      | None \<Rightarrow>
          (case find (\<lambda>u. user_id u = userId row) users of
             None \<Rightarrow> 150
           | Some person \<Rightarrow> spec_effectiveRate row person))
   \<and> (customRate row = None \<and> find (\<lambda>u. user_id u = userId row) users = None
        \<longrightarrow> getEffectiveRate users row = 150)
   \<and> (\<forall>person. customRate row = None
         \<and> find (\<lambda>u. user_id u = userId row) users = Some person
         \<and> first_match (case user_title person of None \<Rightarrow> '''' | Some t \<Rightarrow> toLowerCase t)
              title_rate_table = None
         \<and> hourlyRate person = None
       \<longrightarrow> getEffectiveRate users row = 150)
   \<and> (\<forall>person. customRate row = None
         \<and> find (\<lambda>u. user_id u = userId row) users = Some person
         \<and> user_title person = None \<and> hourlyRate person = None
       \<longrightarrow> getEffectiveRate users row = 150)
   \<and> (customTitle row = None \<longrightarrow> getRoleCategory row = ''default'')
   \<and> (first_match (case customTitle row of None \<Rightarrow> '''' | Some t \<Rightarrow> toLowerCase t)
         title_category_table = None
       \<longrightarrow> getRoleCategory row = ''default'')
   \<and> getRoleCategory row \<in> set [''principal'', ''managing_director'', ''consultant'',
         ''research_associate'', ''copy_editor'', ''default'']"
proof -
  have r1: "customRate row = None \<and> find (\<lambda>u. user_id u = userId row) users = None
      \<longrightarrow> getEffectiveRate users row = 150"
    by (simp add: getEffectiveRate_cases)
  have r2: "\<forall>person. customRate row = None
         \<and> find (\<lambda>u. user_id u = userId row) users = Some person
         \<and> first_match (case user_title person of None \<Rightarrow> '''' | Some t \<Rightarrow> toLowerCase t)
              title_rate_table = None
         \<and> hourlyRate person = None
       \<longrightarrow> getEffectiveRate users row = 150"
    by (simp add: getEffectiveRate_cases spec_effectiveRate_def)
  have r3: "\<forall>person. customRate row = None
         \<and> find (\<lambda>u. user_id u = userId row) users = Some person
         \<and> user_title person = None \<and> hourlyRate person = None
       \<longrightarrow> getEffectiveRate users row = 150"
    by (simp add: getEffectiveRate_cases spec_effectiveRate_def first_match_empty_title_rate)
  have c1: "customTitle row = None \<longrightarrow> getRoleCategory row = ''default''"
    by (simp add: getRoleCategory_table first_match_empty_title_category)
  have c2: "first_match (case customTitle row of None \<Rightarrow> '''' | Some t \<Rightarrow> toLowerCase t)
         title_category_table = None
       \<longrightarrow> getRoleCategory row = ''default''"
    by (simp add: getRoleCategory_table)
  have c3: "getRoleCategory row \<in> set [''principal'', ''managing_director'', ''consultant'',
         ''research_associate'', ''copy_editor'', ''default'']"
    by (simp add: getRoleCategory_def Let_def)
  from r1 r2 r3 c1 c2 c3 getEffectiveRate_cases [where users = users and row = row]
  show ?thesis by blast
qed

theorem resolvers_fall_back_to_defaults_witness:
  "find (\<lambda>u. user_id u = ''gone'')
     [\<lparr>user_id = ''u1'', fullName = ''Jane Doe'', user_title = None, hourlyRate = None\<rparr>] = None
   \<and> getEffectiveRate
       [\<lparr>user_id = ''u1'', fullName = ''Jane Doe'', user_title = None, hourlyRate = None\<rparr>]
       \<lparr>row_id = 1, userId = ''gone'', customTitle = None, customRate = None,
        year1 = 10, year2 = 0, year3 = 0, year4 = 0, year5 = 0\<rparr> = 150
   \<and> getRoleCategory
       \<lparr>row_id = 1, userId = ''gone'', customTitle = None, customRate = None,
        year1 = 10, year2 = 0, year3 = 0, year4 = 0, year5 = 0\<rparr> = ''default''"
  using resolvers_fall_back_to_defaults
    [where row = "\<lparr>row_id = 1, userId = ''gone'', customTitle = None, customRate = None,
                    year1 = 10, year2 = 0, year3 = 0, year4 = 0, year5 = 0\<rparr>"
       and users = "[\<lparr>user_id = ''u1'', fullName = ''Jane Doe'', user_title = None,
                      hourlyRate = None\<rparr>]"]
  by simp


section \<open>Properties of double arithmetic\<close>

lemma floor_log2_le:
  assumes "0 < x"
  shows "2 powi (floor_log2 x) \<le> x"
proof -
  obtain p q where pq: "quotient_of x = (p, q)" by (cases "quotient_of x")
  then have q: "0 < q" by (rule quotient_of_denom_pos)
  from pq have x: "x = of_int p / of_int q" by (rule quotient_of_div)
  with assms q have p: "0 < p" by (simp add: zero_less_divide_iff)
  let ?k = "bitlen p - bitlen q"
  show ?thesis
  proof (cases "2 powi ?k \<le> x")
    case True
    then show ?thesis by (simp add: floor_log2_def pq)
  next
    case False
    from bitlen_bounds [OF p] have lp: "2 ^ nat (bitlen p - 1) \<le> p" by simp
    from bitlen_bounds [OF q] have uq: "q < 2 ^ nat (bitlen q)" by simp
    have bp: "1 \<le> bitlen p" using p by (simp add: bitlen_def floorlog_def)
    have bq: "0 \<le> bitlen q" by (rule bitlen_nonneg)
    have "?k - 1 = (bitlen p - 1) - bitlen q" by simp
    then have "(2::rat) powi (?k - 1) = 2 powi (bitlen p - 1) / 2 powi (bitlen q)"
      by (simp only: power_int_diff [of "2::rat" "bitlen p - 1" "bitlen q", simplified])
    also have "\<dots> = 2 ^ nat (bitlen p - 1) / 2 ^ nat (bitlen q)"
      using bp bq by (simp add: power_int_def)
    also have "\<dots> \<le> of_int p / of_int q"
    proof -
      have a: "(2::rat) ^ nat (bitlen p - 1) \<le> of_int p"
        using lp by (metis of_int_le_iff of_int_numeral of_int_power)
      have b: "(of_int q :: rat) \<le> 2 ^ nat (bitlen q)"
        using uq by (metis less_imp_le of_int_le_iff of_int_numeral of_int_power)
      have c: "(0::rat) < of_int q" using q by simp
      have d: "(0::rat) \<le> 2 ^ nat (bitlen p - 1)" by simp
      have e: "(0::rat) \<le> of_int p" using p by simp
      from e a c b show ?thesis by (rule frac_le)
    qed
    finally have "2 powi (?k - 1) \<le> x" by (simp add: x)
    with False show ?thesis by (simp add: floor_log2_def pq)
  qed
qed

lemma round_half_even_of_int: "round_half_even (of_int n) = n"
  by (simp add: round_half_even_def)

text \<open>A non-negative multiple of one half below \<open>2 ^ 52\<close> is a double.\<close>

lemma round64_exact:
  assumes "0 \<le> x" and "x < 2 ^ 52" and "2 * x \<in> \<int>"
  shows "round64 x = Finite x"
proof (cases "x = 0")
  case True
  then show ?thesis by (simp add: round64_def)
next
  case False
  with assms have pos: "0 < x" by simp
  define e where "e = max (floor_log2 \<bar>x\<bar> - 52) (- 1074)"
  have "floor_log2 x < 52"
  proof (rule ccontr)
    assume "\<not> floor_log2 x < 52"
    then have "52 \<le> floor_log2 x" by simp
    then have "(2::rat) powi 52 \<le> 2 powi (floor_log2 x)"
      by (intro power_int_increasing) simp_all
    also have "\<dots> \<le> x" using pos by (rule floor_log2_le)
    finally show False using assms(2) by simp
  qed
  then have e: "e \<le> - 1" "- 1074 \<le> e"
    using pos by (simp_all add: e_def)
  from assms(3) obtain m :: int where m: "2 * x = of_int m" by (auto elim: Ints_cases)
  have "x / 2 powi e = x * 2 powi (- e)"
    by (simp add: power_int_minus field_simps)
  also have "(2::rat) powi (- e) = 2 * 2 powi (- e - 1)"
    using power_int_add [of "2::rat" 1 "- e - 1"] by simp
  also have "x * (2 * 2 powi (- e - 1)) = of_int m * 2 powi (- e - 1)"
    using m by simp
  also have "(2::rat) powi (- e - 1) = of_int (2 ^ nat (- e - 1))"
    using e by (simp add: power_int_def)
  finally have n: "x / 2 powi e = of_int (m * 2 ^ nat (- e - 1))" by simp
  have y: "of_int (round_half_even (x / 2 powi e)) * 2 powi e = x"
    unfolding n round_half_even_of_int
    using n by (simp add: field_simps)
  have big: "x < 2 ^ 1024"
  proof -
    have "(2::rat) ^ 52 \<le> 2 ^ 1024" by (rule power_increasing) simp_all
    with assms(2) show ?thesis by simp
  qed
  have neg: "\<not> x \<le> - (2 ^ 1024)" using pos by (simp add: not_le)
  show ?thesis
    using False big neg y
    unfolding round64_def Let_def e_def [symmetric]
    by (simp add: not_le)
qed












section \<open>Properties of the totals\<close>






















section \<open>Properties of the rate and hour inputs\<close>

text \<open>
  An override of zero, once stored, does win: when the sum of the hours is finite, the row
  total is zero whatever the hours. (An infinite sum times zero is \<^verbatim>\<open>NaN\<close>.)
\<close>

lemma zero_override_row_total:
  assumes "customRate row = Some 0"
    and "fadd (fadd (fadd (fadd (Finite (year1 row)) (Finite (year2 row)))
                             (Finite (year3 row)))
                       (Finite (year4 row)))
                 (Finite (year5 row)) = Finite h"
  shows "calculateRowTotal users row = Finite 0"
  unfolding calculateRowTotal_def Let_def assms(2)
  by (simp add: getEffectiveRate_def assms(1) round64_def)

text \<open>
  Claim C5, at the rate input. Typing \<^verbatim>\<open>0\<close> into the rate input of a row does not store
  the override zero: \<^verbatim>\<open>parseFloat("0") || null\<close> is \<^verbatim>\<open>null\<close>, so the override is cleared.
  For a row of 10 hours with override 200 whose person is titled "Principal", the row
  afterwards has no override and its total is 10 times the Principal rate, 2500, not 0.
\<close>

theorem rateInput_zero_clears_override:
  "rateInput_onChange
     [\<lparr>user_id = ''u2'', fullName = ''Sarah Smith'', user_title = Some ''Principal'',
       hourlyRate = Some 250\<rparr>]
     [\<lparr>row_id = 1, userId = ''u2'', customTitle = Some ''Principal'', customRate = Some 200,
       year1 = 10, year2 = 0, year3 = 0, year4 = 0, year5 = 0\<rparr>]
     1 (Num 0)
   = [\<lparr>row_id = 1, userId = ''u2'', customTitle = Some ''Principal'', customRate = None,
       year1 = 10, year2 = 0, year3 = 0, year4 = 0, year5 = 0\<rparr>]
   \<and> calculateRowTotal
       [\<lparr>user_id = ''u2'', fullName = ''Sarah Smith'', user_title = Some ''Principal'',
         hourlyRate = Some 250\<rparr>]
       \<lparr>row_id = 1, userId = ''u2'', customTitle = Some ''Principal'', customRate = None,
        year1 = 10, year2 = 0, year3 = 0, year4 = 0, year5 = 0\<rparr> = Finite 2500"
  by (simp add: rateInput_onChange_def updateRow_def calculateRowTotal_def
      getEffectiveRate_def getDefaultRate_def DEFAULT_HOURLY_RATES_def Let_def
      toLowerCase_Principal js_includes_def sublist_code(3) round64_exact)

lemma hoursInput_onChange_map:
  "hoursInput_onChange users rows i y p =
     map (\<lambda>r. if row_id r = i then set_hours y (or_zero p) r else r) rows"
  by (auto simp: hoursInput_onChange_def updateRow_def)

lemma row_id_set_hours: "row_id (set_hours y v r) = row_id r"
  by (cases y) simp_all

lemma set_hours_twice: "set_hours y w (set_hours y v r) = set_hours y w r"
  by (cases y) simp_all

lemma hours_set_hours_same: "hours (set_hours y v r) y = v"
  by (cases y) simp_all

lemma hours_set_hours_other: "y' \<noteq> y \<Longrightarrow> hours (set_hours y v r) y' = hours r y'"
  by (cases y; cases y') simp_all

text \<open>
  An edit of an hour input replaces the hours of that year in the rows with that id, by
  the parsed number or by \<open>0\<close> when the text is not a number; the other years and the
  other rows are as before, and of two edits of the same year the second alone counts.
\<close>

lemma hoursInput_onChange_overwrites:
  "hoursInput_onChange users (hoursInput_onChange users rows i y p) i y q
     = hoursInput_onChange users rows i y q"
  by (simp add: hoursInput_onChange_map row_id_set_hours set_hours_twice)

lemma saveMutation_items_hours:
  "map item_hours (saveMutation_items rows)
     = concat (map (\<lambda>row. map (\<lambda>y. hours row y) [Y1, Y2, Y3, Y4, Y5]) rows)"
  by (induction rows) (simp_all add: saveMutation_items_def)

text \<open>
  Claim C8, at the hour input. The input declares \<^verbatim>\<open>min="0"\<close>, but its change handler
  stores whatever number the text parses to. With \<^verbatim>\<open>-5\<close> typed into the year 3 input of a
  row that held 40 hours, nothing is rejected: the row holds \<^verbatim>\<open>-5\<close> hours for year 3, and
  the items that saving the sheet posts carry \<^verbatim>\<open>-5\<close> hours for that person and year.
\<close>

theorem negative_hours_are_stored:
  "hoursInput_onChange []
     [\<lparr>row_id = 1, userId = ''u2'', customTitle = Some ''Principal'', customRate = None,
       year1 = 0, year2 = 0, year3 = 40, year4 = 0, year5 = 0\<rparr>]
     1 Y3 (Num (- 5))
   = [\<lparr>row_id = 1, userId = ''u2'', customTitle = Some ''Principal'', customRate = None,
       year1 = 0, year2 = 0, year3 = - 5, year4 = 0, year5 = 0\<rparr>]
   \<and> saveMutation_items
       [\<lparr>row_id = 1, userId = ''u2'', customTitle = Some ''Principal'', customRate = None,
         year1 = 0, year2 = 0, year3 = - 5, year4 = 0, year5 = 0\<rparr>]
     = [\<lparr>item_userId = ''u2'', item_year = Y1, item_hours = 0\<rparr>,
        \<lparr>item_userId = ''u2'', item_year = Y2, item_hours = 0\<rparr>,
        \<lparr>item_userId = ''u2'', item_year = Y3, item_hours = - 5\<rparr>,
        \<lparr>item_userId = ''u2'', item_year = Y4, item_hours = 0\<rparr>,
        \<lparr>item_userId = ''u2'', item_year = Y5, item_hours = 0\<rparr>]"
  by (simp add: hoursInput_onChange_def updateRow_def saveMutation_items_def)

section \<open>Properties of the section PATCH route\<close>

lemma section_id_apply_patch: "section_id (apply_patch p now s) = section_id s"
  by (simp add: apply_patch_def)

lemma find_map_patched:
  "find (\<lambda>s. section_id s = i) tbl = Some s \<Longrightarrow>
   find (\<lambda>s. section_id s = i)
     (map (\<lambda>s. if section_id s = i then apply_patch p now s else s) tbl)
   = Some (apply_patch p now s)"
  by (induction tbl) (auto simp: section_id_apply_patch)

lemma patch_found:
  assumes "find (\<lambda>s. section_id s = i) tbl = Some s"
    and "p_orderIndex p = None"
    and "references_user users (p_assignedUserId p)"
    and "references_user users (p_lockedByPmId p)"
  shows "patch_response_section users tbl i p now =
           (Inr (apply_patch p now s),
            map (\<lambda>s. if section_id s = i then apply_patch p now s else s) tbl)"
  using assms
  by (simp add: patch_response_section_def updateResponseSection_def Let_def find_map_patched)

lemma patch_found_in_range:
  assumes "find (\<lambda>s. section_id s = i) tbl = Some s"
    and "case p_orderIndex p of None \<Rightarrow> True | Some n \<Rightarrow> int4 n"
    and "references_user users (p_assignedUserId p)"
    and "references_user users (p_lockedByPmId p)"
  shows "patch_response_section users tbl i p now =
           (Inr (apply_patch p now s),
            map (\<lambda>s. if section_id s = i then apply_patch p now s else s) tbl)"
  using assms
  by (simp add: patch_response_section_def updateResponseSection_def Let_def find_map_patched)

lemma patch_not_found:
  "find (\<lambda>s. section_id s = i) tbl = None \<Longrightarrow>
   (case p_orderIndex p of None \<Rightarrow> True | Some n \<Rightarrow> int4 n) \<Longrightarrow>
   patch_response_section users tbl i p now = (Inl NotFound_404, tbl)"
  by (simp add: patch_response_section_def updateResponseSection_def)

lemma patch_out_of_range:
  "\<not> (case p_orderIndex p of None \<Rightarrow> True | Some n \<Rightarrow> int4 n) \<Longrightarrow>
   patch_response_section users tbl i p now = (Inl ServerError_500, tbl)"
  by (simp add: patch_response_section_def updateResponseSection_def)

lemma patch_throws:
  assumes "find (\<lambda>s. section_id s = i) tbl = Some s"
    and "\<not> (references_user users (p_assignedUserId p)
            \<and> references_user users (p_lockedByPmId p))"
  shows "patch_response_section users tbl i p now = (Inl ServerError_500, tbl)"
  using assms
  by (auto simp: patch_response_section_def updateResponseSection_def)

text \<open>The three outcomes of the route.\<close>

lemma patch_cases:
  "patch_response_section users tbl i p now = (Inl NotFound_404, tbl)
   \<or> patch_response_section users tbl i p now = (Inl ServerError_500, tbl)
   \<or> (\<exists>s. find (\<lambda>s. section_id s = i) tbl = Some s
         \<and> patch_response_section users tbl i p now =
           (Inr (apply_patch p now s),
            map (\<lambda>s. if section_id s = i then apply_patch p now s else s) tbl))"
proof (cases "case p_orderIndex p of None \<Rightarrow> True | Some n \<Rightarrow> int4 n")
  case False
  then have "patch_response_section users tbl i p now = (Inl ServerError_500, tbl)"
    by (rule patch_out_of_range)
  then show ?thesis by blast
next
  case range: True
  show ?thesis
  proof (cases "find (\<lambda>s. section_id s = i) tbl")
    case None
    then show ?thesis using range by (simp add: patch_not_found)
  next
    case (Some s)
    show ?thesis
    proof (cases "references_user users (p_assignedUserId p)
                  \<and> references_user users (p_lockedByPmId p)")
      case True
      with Some range have "patch_response_section users tbl i p now =
             (Inr (apply_patch p now s),
              map (\<lambda>s. if section_id s = i then apply_patch p now s else s) tbl)"
        by (simp add: patch_found_in_range)
      with Some show ?thesis by blast
    next
      case False
      with Some have "patch_response_section users tbl i p now = (Inl ServerError_500, tbl)"
        by (rule patch_throws)
      then show ?thesis by blast
    qed
  qed
qed

lemma patch_Inr:
  assumes "patch_response_section users tbl i p now = (Inr s', tbl')"
  shows "\<exists>s. find (\<lambda>s. section_id s = i) tbl = Some s \<and> s' = apply_patch p now s
           \<and> tbl' = map (\<lambda>s. if section_id s = i then apply_patch p now s else s) tbl"
proof -
  from patch_cases [of users tbl i p now]
  consider "patch_response_section users tbl i p now = (Inl NotFound_404, tbl)"
    | "patch_response_section users tbl i p now = (Inl ServerError_500, tbl)"
    | s where "find (\<lambda>s. section_id s = i) tbl = Some s"
        "patch_response_section users tbl i p now =
           (Inr (apply_patch p now s),
            map (\<lambda>s. if section_id s = i then apply_patch p now s else s) tbl)"
    by blast
  then show ?thesis
  proof cases
    case 1
    with assms show ?thesis by simp
  next
    case 2
    with assms show ?thesis by simp
  next
    case (3 s)
    from 3(2) assms have "s' = apply_patch p now s"
      and "tbl' = map (\<lambda>s. if section_id s = i then apply_patch p now s else s) tbl"
      by simp_all
    with 3(1) show ?thesis by blast
  qed
qed

lemma patch_Inl:
  assumes "patch_response_section users tbl i p now = (Inl e, tbl')"
  shows "tbl' = tbl"
proof -
  from patch_cases [of users tbl i p now]
  consider "patch_response_section users tbl i p now = (Inl NotFound_404, tbl)"
    | "patch_response_section users tbl i p now = (Inl ServerError_500, tbl)"
    | s where "patch_response_section users tbl i p now =
           (Inr (apply_patch p now s),
            map (\<lambda>s. if section_id s = i then apply_patch p now s else s) tbl)"
    by blast
  then show ?thesis
  proof cases
    case 1
    with assms show ?thesis by simp
  next
    case 2
    with assms show ?thesis by simp
  next
    case (3 s)
    with assms show ?thesis by simp
  qed
qed

lemma written_rows:
  "x \<in> set (map (\<lambda>s. if section_id s = i then f s else s) tbl) \<Longrightarrow>
   section_id x = i \<Longrightarrow> (\<And>s. section_id (f s) = section_id s) \<Longrightarrow> x \<in> f ` set tbl"
  by (induction tbl) (auto split: if_splits)

lemma list_all_written:
  "list_all P tbl \<Longrightarrow> (\<And>s. P (f s)) \<Longrightarrow>
   list_all P (map (\<lambda>s. if section_id s = i then f s else s) tbl)"
  by (induction tbl) simp_all

lemma toggleLock_body_refs:
  "references_user users (p_assignedUserId (toggleLock_body uid b))"
  "references_user users (p_lockedByPmId (toggleLock_body uid b))
     = (b \<longrightarrow> uid \<in> set (map user_id users))"
  by (simp_all add: toggleLock_body_def empty_patch_def references_user_def)

lemma assignUser_body_refs:
  "references_user users (p_lockedByPmId (assignUser_body v))"
  "references_user users (p_assignedUserId (assignUser_body v))
     = (case v of None \<Rightarrow> True | Some u \<Rightarrow> u \<in> set (map user_id users))"
  by (simp_all add: assignUser_body_def empty_patch_def references_user_def
      split: option.splits)

lemma apply_toggleLock_body:
  "apply_patch (toggleLock_body uid b) now s
   = s\<lparr>isLocked := Some b, lockedByPmId := (if b then Some uid else None), updatedAt := now\<rparr>"
  by (simp add: apply_patch_def toggleLock_body_def empty_patch_def)

lemma apply_assignUser_body:
  "apply_patch (assignUser_body v) now s = s\<lparr>assignedUserId := v, updatedAt := now\<rparr>"
  by (simp add: apply_patch_def assignUser_body_def empty_patch_def)

lemma toggleLock_fields:
  "isLocked (apply_patch (toggleLock_body uid b) now s) = Some b"
  "lockedByPmId (apply_patch (toggleLock_body uid b) now s) = (if b then Some uid else None)"
  "assignedUserId (apply_patch (toggleLock_body uid b) now s) = assignedUserId s"
  by (simp_all add: apply_toggleLock_body)

lemma lock_consistent_toggleLock:
  "lock_consistent (apply_patch (toggleLock_body uid b) now s)"
  by (simp add: lock_consistent_def js_true_def toggleLock_fields)

lemma toggleLock_Inr:
  assumes "toggleLockMutation users tbl uid i b now = (Inr s', tbl')"
  shows "\<exists>s. find (\<lambda>s. section_id s = i) tbl = Some s
           \<and> s' = apply_patch (toggleLock_body uid b) now s
           \<and> tbl' = map (\<lambda>s. if section_id s = i
                                then apply_patch (toggleLock_body uid b) now s else s) tbl"
  using assms unfolding toggleLockMutation_def by (rule patch_Inr)

lemma toggleLock_found:
  assumes "find (\<lambda>s. section_id s = i) tbl = Some s"
    and "b \<longrightarrow> uid \<in> set (map user_id users)"
  shows "toggleLockMutation users tbl uid i b now =
           (Inr (apply_patch (toggleLock_body uid b) now s),
            map (\<lambda>s. if section_id s = i
                      then apply_patch (toggleLock_body uid b) now s else s) tbl)"
  unfolding toggleLockMutation_def
  using assms(1)
proof (rule patch_found)
  show "p_orderIndex (toggleLock_body uid b) = None"
    by (simp add: toggleLock_body_def empty_patch_def)
  show "references_user users (p_assignedUserId (toggleLock_body uid b))"
    by (rule toggleLock_body_refs(1))
  show "references_user users (p_lockedByPmId (toggleLock_body uid b))"
    using assms(2) by (simp add: toggleLock_body_refs(2))
qed

lemma assignUser_found:
  assumes "find (\<lambda>s. section_id s = i) tbl = Some s"
    and "case v of None \<Rightarrow> True | Some u \<Rightarrow> u \<in> set (map user_id users)"
  shows "assignUserMutation users tbl i v now =
           (Inr (apply_patch (assignUser_body v) now s),
            map (\<lambda>s. if section_id s = i
                      then apply_patch (assignUser_body v) now s else s) tbl)"
  unfolding assignUserMutation_def
  using assms(1)
proof (rule patch_found)
  show "p_orderIndex (assignUser_body v) = None"
    by (simp add: assignUser_body_def empty_patch_def)
  show "references_user users (p_assignedUserId (assignUser_body v))"
    using assms(2) by (simp add: assignUser_body_refs(2))
  show "references_user users (p_lockedByPmId (assignUser_body v))"
    by (rule assignUser_body_refs(1))
qed

section \<open>Properties of locking\<close>

text \<open>
  Claim C10. A lock toggle writes the flag and the holder together. When the request
  succeeds, the returned section and every row with that id have \<^verbatim>\<open>isLocked\<close> equal to the
  requested flag and \<^verbatim>\<open>lockedByPmId\<close> equal to the acting user's id when locking and to
  \<^verbatim>\<open>null\<close> when unlocking, so the section is locked exactly when it has a holder; when
  the request fails the table is unchanged. Hence a table in which every section is
  locked exactly when it has a holder stays so. The request succeeds when the section
  exists and, for a lock, the acting user is a user.
\<close>

theorem toggleLock_writes_flag_and_holder_together:
  "(\<forall>s' tbl'. toggleLockMutation users tbl uid i b now = (Inr s', tbl')
      \<longrightarrow> isLocked s' = Some b \<and> lockedByPmId s' = (if b then Some uid else None)
          \<and> lock_consistent s'
          \<and> (\<forall>x \<in> set tbl'. section_id x = i \<longrightarrow>
                isLocked x = Some b \<and> lockedByPmId x = (if b then Some uid else None)))
   \<and> (\<forall>e tbl'. toggleLockMutation users tbl uid i b now = (Inl e, tbl') \<longrightarrow> tbl' = tbl)
   \<and> (list_all lock_consistent tbl
        \<longrightarrow> list_all lock_consistent (snd (toggleLockMutation users tbl uid i b now)))
   \<and> (\<forall>s. find (\<lambda>s. section_id s = i) tbl = Some s \<and> (b \<longrightarrow> uid \<in> set (map user_id users))
        \<longrightarrow> fst (toggleLockMutation users tbl uid i b now)
              = Inr (s\<lparr>isLocked := Some b, lockedByPmId := (if b then Some uid else None),
                        updatedAt := now\<rparr>))"
proof -
  let ?w = "apply_patch (toggleLock_body uid b) now"
  have ok: "isLocked s' = Some b \<and> lockedByPmId s' = (if b then Some uid else None)
          \<and> lock_consistent s'
          \<and> (\<forall>x \<in> set tbl'. section_id x = i \<longrightarrow>
                isLocked x = Some b \<and> lockedByPmId x = (if b then Some uid else None))"
    if eq: "toggleLockMutation users tbl uid i b now = (Inr s', tbl')" for s' tbl'
  proof -
    from toggleLock_Inr [OF eq] obtain s where s': "s' = ?w s"
      and tbl': "tbl' = map (\<lambda>s. if section_id s = i then ?w s else s) tbl"
      by blast
    have rows: "isLocked x = Some b \<and> lockedByPmId x = (if b then Some uid else None)"
      if "x \<in> set tbl'" "section_id x = i" for x
    proof -
      from that have "x \<in> ?w ` set tbl"
        unfolding tbl' by (rule written_rows) (rule section_id_apply_patch)
      then obtain s0 where "x = ?w s0" by blast
      then show ?thesis by (simp only: toggleLock_fields simp_thms)
    qed
    have "isLocked s' = Some b" "lockedByPmId s' = (if b then Some uid else None)"
      by (simp_all only: s' toggleLock_fields)
    moreover have "lock_consistent s'"
      unfolding s' by (rule lock_consistent_toggleLock)
    ultimately show ?thesis using rows by blast
  qed
  have err: "tbl' = tbl" if "toggleLockMutation users tbl uid i b now = (Inl e, tbl')" for e tbl'
    using that unfolding toggleLockMutation_def by (rule patch_Inl)
  have inv: "list_all lock_consistent (snd (toggleLockMutation users tbl uid i b now))"
    if all: "list_all lock_consistent tbl"
  proof (cases "toggleLockMutation users tbl uid i b now")
    case (Pair r tbl')
    show ?thesis
    proof (cases r)
      case (Inl e)
      with Pair err [of e tbl'] all show ?thesis by simp
    next
      case (Inr s')
      with Pair toggleLock_Inr [of users tbl uid i b now s' tbl']
      have "tbl' = map (\<lambda>s. if section_id s = i then ?w s else s) tbl" by blast
      moreover have "list_all lock_consistent (map (\<lambda>s. if section_id s = i then ?w s else s) tbl)"
        using all by (rule list_all_written) (rule lock_consistent_toggleLock)
      ultimately show ?thesis using Pair by simp
    qed
  qed
  have succ: "fst (toggleLockMutation users tbl uid i b now)
              = Inr (s\<lparr>isLocked := Some b, lockedByPmId := (if b then Some uid else None),
                        updatedAt := now\<rparr>)"
    if "find (\<lambda>s. section_id s = i) tbl = Some s" "b \<longrightarrow> uid \<in> set (map user_id users)" for s
    using toggleLock_found [OF that] by (simp add: apply_toggleLock_body)
  from ok err inv succ show ?thesis by blast
qed

theorem toggleLock_writes_flag_and_holder_together_witness:
  "toggleLockMutation
       [\<lparr>user_id = ''pm-a'', fullName = ''Jane Doe'', user_title = Some ''Proposal Manager'',
         hourlyRate = Some 0\<rparr>]
       [\<lparr>section_id = 1, responseId = 1, section_title = ''Executive Summary'', content = '''',
         orderIndex = 0, assignedUserId = Some ''u2'', isLocked = Some True,
         lockedByPmId = Some ''pm-a'', createdAt = 1, updatedAt = 2\<rparr>]
       ''pm-a'' 1 False 9
     = (Inr \<lparr>section_id = 1, responseId = 1, section_title = ''Executive Summary'',
             content = '''', orderIndex = 0, assignedUserId = Some ''u2'', isLocked = Some False,
             lockedByPmId = None, createdAt = 1, updatedAt = 9\<rparr>,
        [\<lparr>section_id = 1, responseId = 1, section_title = ''Executive Summary'',
          content = '''', orderIndex = 0, assignedUserId = Some ''u2'', isLocked = Some False,
          lockedByPmId = None, createdAt = 1, updatedAt = 9\<rparr>])
   \<and> lock_consistent
       \<lparr>section_id = 1, responseId = 1, section_title = ''Executive Summary'',
        content = '''', orderIndex = 0, assignedUserId = Some ''u2'', isLocked = Some False,
        lockedByPmId = None, createdAt = 1, updatedAt = 9\<rparr>"
proof -
  have unlock: "toggleLockMutation
       [\<lparr>user_id = ''pm-a'', fullName = ''Jane Doe'', user_title = Some ''Proposal Manager'',
         hourlyRate = Some 0\<rparr>]
       [\<lparr>section_id = 1, responseId = 1, section_title = ''Executive Summary'', content = '''',
         orderIndex = 0, assignedUserId = Some ''u2'', isLocked = Some True,
         lockedByPmId = Some ''pm-a'', createdAt = 1, updatedAt = 2\<rparr>]
       ''pm-a'' 1 False 9
     = (Inr \<lparr>section_id = 1, responseId = 1, section_title = ''Executive Summary'',
             content = '''', orderIndex = 0, assignedUserId = Some ''u2'', isLocked = Some False,
             lockedByPmId = None, createdAt = 1, updatedAt = 9\<rparr>,
        [\<lparr>section_id = 1, responseId = 1, section_title = ''Executive Summary'',
          content = '''', orderIndex = 0, assignedUserId = Some ''u2'', isLocked = Some False,
          lockedByPmId = None, createdAt = 1, updatedAt = 9\<rparr>])"
    by (simp add: toggleLockMutation_def patch_response_section_def updateResponseSection_def
        Let_def references_user_def toggleLock_body_def empty_patch_def apply_patch_def)
  from toggleLock_writes_flag_and_holder_together
    [where users = "[\<lparr>user_id = ''pm-a'', fullName = ''Jane Doe'',
                      user_title = Some ''Proposal Manager'', hourlyRate = Some 0\<rparr>]"
       and tbl = "[\<lparr>section_id = 1, responseId = 1, section_title = ''Executive Summary'',
                    content = '''', orderIndex = 0, assignedUserId = Some ''u2'',
                    isLocked = Some True, lockedByPmId = Some ''pm-a'', createdAt = 1,
                    updatedAt = 2\<rparr>]"
       and uid = "''pm-a''" and i = 1 and b = False and now = 9] unlock
  show ?thesis by blast
qed

lemma lockButton_onClick_cases:
  "lockButton_onClick False users tbl uid sec now = None"
  "lockButton_onClick True users tbl uid sec now
     = Some (toggleLockMutation users tbl uid (section_id sec) (isLocked sec \<noteq> Some True) now)"
  by (simp_all add: lockButton_onClick_def js_true_def)

text \<open>
  Claim C6 as stated fails: a lock request on a section that another manager holds
  locked is served. With section 1 locked by \<^verbatim>\<open>pm-a\<close>, the lock request of \<^verbatim>\<open>pm-b\<close>
  succeeds and leaves \<^verbatim>\<open>pm-b\<close> as the holder.
\<close>

theorem lock_by_other_manager_succeeds:
  "toggleLockMutation
     [\<lparr>user_id = ''pm-a'', fullName = ''Jane Doe'', user_title = Some ''Proposal Manager'',
       hourlyRate = Some 0\<rparr>,
      \<lparr>user_id = ''pm-b'', fullName = ''Rachel Brown'', user_title = Some ''Managing Director'',
       hourlyRate = Some 350\<rparr>]
     [\<lparr>section_id = 1, responseId = 1, section_title = ''Executive Summary'', content = '''',
       orderIndex = 0, assignedUserId = Some ''u2'', isLocked = Some True,
       lockedByPmId = Some ''pm-a'', createdAt = 1, updatedAt = 2\<rparr>]
     ''pm-b'' 1 True 9
   = (Inr \<lparr>section_id = 1, responseId = 1, section_title = ''Executive Summary'', content = '''',
           orderIndex = 0, assignedUserId = Some ''u2'', isLocked = Some True,
           lockedByPmId = Some ''pm-b'', createdAt = 1, updatedAt = 9\<rparr>,
      [\<lparr>section_id = 1, responseId = 1, section_title = ''Executive Summary'', content = '''',
        orderIndex = 0, assignedUserId = Some ''u2'', isLocked = Some True,
        lockedByPmId = Some ''pm-b'', createdAt = 1, updatedAt = 9\<rparr>])"
  by (simp add: toggleLockMutation_def patch_response_section_def updateResponseSection_def
      Let_def references_user_def toggleLock_body_def empty_patch_def apply_patch_def)

text \<open>
  Claim C6, amended. A lock request on an existing section by an actor who is a user
  always succeeds, whoever holds the lock: the section comes back locked with the actor
  as its one holder (\<^verbatim>\<open>lockedByPmId\<close> is a single field, overwritten). When the actor
  already holds the lock, nothing changes but the update time.
\<close>

theorem lock_replaces_holder:
  assumes "find (\<lambda>s. section_id s = i) tbl = Some s"
    and "actor \<in> set (map user_id users)"
  shows "toggleLockMutation users tbl actor i True now =
           (Inr (s\<lparr>isLocked := Some True, lockedByPmId := Some actor, updatedAt := now\<rparr>),
            map (\<lambda>x. if section_id x = i
                      then x\<lparr>isLocked := Some True, lockedByPmId := Some actor,
                             updatedAt := now\<rparr>
                      else x) tbl)
         \<and> (isLocked s = Some True \<and> lockedByPmId s = Some actor \<longrightarrow>
              s\<lparr>isLocked := Some True, lockedByPmId := Some actor, updatedAt := now\<rparr>
                = s\<lparr>updatedAt := now\<rparr>)"
proof -
  have "True \<longrightarrow> actor \<in> set (map user_id users)" using assms(2) by simp
  from toggleLock_found [OF assms(1) this, of now]
  have "toggleLockMutation users tbl actor i True now =
           (Inr (s\<lparr>isLocked := Some True, lockedByPmId := Some actor, updatedAt := now\<rparr>),
            map (\<lambda>x. if section_id x = i
                      then x\<lparr>isLocked := Some True, lockedByPmId := Some actor,
                             updatedAt := now\<rparr>
                      else x) tbl)"
    by (simp add: apply_toggleLock_body)
  moreover have "isLocked s = Some True \<and> lockedByPmId s = Some actor \<longrightarrow>
              s\<lparr>isLocked := Some True, lockedByPmId := Some actor, updatedAt := now\<rparr>
                = s\<lparr>updatedAt := now\<rparr>"
    by (cases s) simp
  ultimately show ?thesis by blast
qed

theorem lock_replaces_holder_witness:
  "find (\<lambda>s. section_id s = 1)
     [\<lparr>section_id = 1, responseId = 1, section_title = ''Executive Summary'', content = '''',
       orderIndex = 0, assignedUserId = Some ''u2'', isLocked = Some True,
       lockedByPmId = Some ''pm-a'', createdAt = 1, updatedAt = 2\<rparr>]
   = Some \<lparr>section_id = 1, responseId = 1, section_title = ''Executive Summary'', content = '''',
       orderIndex = 0, assignedUserId = Some ''u2'', isLocked = Some True,
       lockedByPmId = Some ''pm-a'', createdAt = 1, updatedAt = 2\<rparr>
   \<and> ''pm-a'' \<in> set (map user_id
        [\<lparr>user_id = ''pm-a'', fullName = ''Jane Doe'', user_title = Some ''Proposal Manager'',
          hourlyRate = Some 0\<rparr>])
   \<and> toggleLockMutation
       [\<lparr>user_id = ''pm-a'', fullName = ''Jane Doe'', user_title = Some ''Proposal Manager'',
         hourlyRate = Some 0\<rparr>]
       [\<lparr>section_id = 1, responseId = 1, section_title = ''Executive Summary'', content = '''',
         orderIndex = 0, assignedUserId = Some ''u2'', isLocked = Some True,
         lockedByPmId = Some ''pm-a'', createdAt = 1, updatedAt = 2\<rparr>]
       ''pm-a'' 1 True 9
     = (Inr \<lparr>section_id = 1, responseId = 1, section_title = ''Executive Summary'',
             content = '''', orderIndex = 0, assignedUserId = Some ''u2'', isLocked = Some True,
             lockedByPmId = Some ''pm-a'', createdAt = 1, updatedAt = 9\<rparr>,
        [\<lparr>section_id = 1, responseId = 1, section_title = ''Executive Summary'',
          content = '''', orderIndex = 0, assignedUserId = Some ''u2'', isLocked = Some True,
          lockedByPmId = Some ''pm-a'', createdAt = 1, updatedAt = 9\<rparr>])"
  using lock_replaces_holder
    [where i = 1
       and tbl = "[\<lparr>section_id = 1, responseId = 1, section_title = ''Executive Summary'',
                    content = '''', orderIndex = 0, assignedUserId = Some ''u2'',
                    isLocked = Some True, lockedByPmId = Some ''pm-a'', createdAt = 1,
                    updatedAt = 2\<rparr>]"
       and s = "\<lparr>section_id = 1, responseId = 1, section_title = ''Executive Summary'',
                  content = '''', orderIndex = 0, assignedUserId = Some ''u2'',
                  isLocked = Some True, lockedByPmId = Some ''pm-a'', createdAt = 1,
                  updatedAt = 2\<rparr>"
       and actor = "''pm-a''"
       and users = "[\<lparr>user_id = ''pm-a'', fullName = ''Jane Doe'',
                      user_title = Some ''Proposal Manager'', hourlyRate = Some 0\<rparr>]"
       and now = 9]
  by simp

section \<open>Properties of assignment\<close>

text \<open>
  Claim C7 as stated fails: no assignment raises an error because of the lock. On a
  locked section the assignment request, which names no actor, succeeds; and for an
  actor who is not a proposal manager the assignee select is disabled, so that nothing
  is sent and nothing fails.
\<close>

theorem assign_on_locked_section_succeeds:
  "assignUserMutation
     [\<lparr>user_id = ''u2'', fullName = ''Sarah Smith'', user_title = Some ''Principal'',
       hourlyRate = Some 250\<rparr>,
      \<lparr>user_id = ''u3'', fullName = ''Mike Johnson'', user_title = Some ''Consultant'',
       hourlyRate = Some 175\<rparr>]
     [\<lparr>section_id = 1, responseId = 1, section_title = ''Executive Summary'', content = '''',
       orderIndex = 0, assignedUserId = Some ''u2'', isLocked = Some True,
       lockedByPmId = Some ''pm-a'', createdAt = 1, updatedAt = 2\<rparr>]
     1 (Some ''u3'') 9
   = (Inr \<lparr>section_id = 1, responseId = 1, section_title = ''Executive Summary'', content = '''',
           orderIndex = 0, assignedUserId = Some ''u3'', isLocked = Some True,
           lockedByPmId = Some ''pm-a'', createdAt = 1, updatedAt = 9\<rparr>,
      [\<lparr>section_id = 1, responseId = 1, section_title = ''Executive Summary'', content = '''',
        orderIndex = 0, assignedUserId = Some ''u3'', isLocked = Some True,
        lockedByPmId = Some ''pm-a'', createdAt = 1, updatedAt = 9\<rparr>])
   \<and> assigneeSelect_onValueChange False
       [\<lparr>user_id = ''u2'', fullName = ''Sarah Smith'', user_title = Some ''Principal'',
         hourlyRate = Some 250\<rparr>,
        \<lparr>user_id = ''u3'', fullName = ''Mike Johnson'', user_title = Some ''Consultant'',
         hourlyRate = Some 175\<rparr>]
       [\<lparr>section_id = 1, responseId = 1, section_title = ''Executive Summary'', content = '''',
         orderIndex = 0, assignedUserId = Some ''u2'', isLocked = Some True,
         lockedByPmId = Some ''pm-a'', createdAt = 1, updatedAt = 2\<rparr>]
       \<lparr>section_id = 1, responseId = 1, section_title = ''Executive Summary'', content = '''',
        orderIndex = 0, assignedUserId = Some ''u2'', isLocked = Some True,
        lockedByPmId = Some ''pm-a'', createdAt = 1, updatedAt = 2\<rparr>
       ''u3'' 9
     = None"
  by (simp add: assignUserMutation_def patch_response_section_def updateResponseSection_def
      Let_def references_user_def assignUser_body_def empty_patch_def apply_patch_def
      assigneeSelect_onValueChange_def)

text \<open>
  Claim C7, amended. Assignment and lock are independent. An assignment request for an
  existing section with a user's id (or \<^verbatim>\<open>null\<close>) succeeds whether or not the section is
  locked and whoever sends it: it changes the assignment and the update time and leaves
  \<^verbatim>\<open>isLocked\<close> and \<^verbatim>\<open>lockedByPmId\<close> as they were. In the editor only a proposal manager
  can send it: for any other actor the assignee select is disabled on every section,
  locked or not, and nothing is sent.
\<close>

theorem assign_ignores_lock:
  assumes "find (\<lambda>s. section_id s = i) tbl = Some s"
    and "case v of None \<Rightarrow> True | Some u \<Rightarrow> u \<in> set (map user_id users)"
  shows "assignUserMutation users tbl i v now =
           (Inr (s\<lparr>assignedUserId := v, updatedAt := now\<rparr>),
            map (\<lambda>x. if section_id x = i then x\<lparr>assignedUserId := v, updatedAt := now\<rparr> else x)
              tbl)
         \<and> isLocked (s\<lparr>assignedUserId := v, updatedAt := now\<rparr>) = isLocked s
         \<and> lockedByPmId (s\<lparr>assignedUserId := v, updatedAt := now\<rparr>) = lockedByPmId s
         \<and> assigneeSelect_onValueChange False users tbl sec val now = None
         \<and> assigneeSelect_onValueChange True users tbl sec val now
             = Some (assignUserMutation users tbl (section_id sec)
                       (if val = ''unassigned'' then None else Some val) now)"
proof -
  from assignUser_found [OF assms, of now]
  have "assignUserMutation users tbl i v now =
           (Inr (s\<lparr>assignedUserId := v, updatedAt := now\<rparr>),
            map (\<lambda>x. if section_id x = i then x\<lparr>assignedUserId := v, updatedAt := now\<rparr> else x)
              tbl)"
    by (simp add: apply_assignUser_body)
  then show ?thesis by (simp add: assigneeSelect_onValueChange_def)
qed

theorem assign_ignores_lock_witness:
  "find (\<lambda>s. section_id s = 1)
     [\<lparr>section_id = 1, responseId = 1, section_title = ''Executive Summary'', content = '''',
       orderIndex = 0, assignedUserId = Some ''u2'', isLocked = Some True,
       lockedByPmId = Some ''pm-a'', createdAt = 1, updatedAt = 2\<rparr>]
   = Some \<lparr>section_id = 1, responseId = 1, section_title = ''Executive Summary'', content = '''',
       orderIndex = 0, assignedUserId = Some ''u2'', isLocked = Some True,
       lockedByPmId = Some ''pm-a'', createdAt = 1, updatedAt = 2\<rparr>
   \<and> ''u3'' \<in> set (map user_id
        [\<lparr>user_id = ''u3'', fullName = ''Mike Johnson'', user_title = Some ''Consultant'',
          hourlyRate = Some 175\<rparr>])
   \<and> assignUserMutation
       [\<lparr>user_id = ''u3'', fullName = ''Mike Johnson'', user_title = Some ''Consultant'',
         hourlyRate = Some 175\<rparr>]
       [\<lparr>section_id = 1, responseId = 1, section_title = ''Executive Summary'', content = '''',
         orderIndex = 0, assignedUserId = Some ''u2'', isLocked = Some True,
         lockedByPmId = Some ''pm-a'', createdAt = 1, updatedAt = 2\<rparr>]
       1 (Some ''u3'') 9
     = (Inr \<lparr>section_id = 1, responseId = 1, section_title = ''Executive Summary'',
             content = '''', orderIndex = 0, assignedUserId = Some ''u3'', isLocked = Some True,
             lockedByPmId = Some ''pm-a'', createdAt = 1, updatedAt = 9\<rparr>,
        [\<lparr>section_id = 1, responseId = 1, section_title = ''Executive Summary'',
          content = '''', orderIndex = 0, assignedUserId = Some ''u3'', isLocked = Some True,
          lockedByPmId = Some ''pm-a'', createdAt = 1, updatedAt = 9\<rparr>])"
  using assign_ignores_lock
    [where i = 1
       and tbl = "[\<lparr>section_id = 1, responseId = 1, section_title = ''Executive Summary'',
                    content = '''', orderIndex = 0, assignedUserId = Some ''u2'',
                    isLocked = Some True, lockedByPmId = Some ''pm-a'', createdAt = 1,
                    updatedAt = 2\<rparr>]"
       and s = "\<lparr>section_id = 1, responseId = 1, section_title = ''Executive Summary'',
                  content = '''', orderIndex = 0, assignedUserId = Some ''u2'',
                  isLocked = Some True, lockedByPmId = Some ''pm-a'', createdAt = 1,
                  updatedAt = 2\<rparr>"
       and v = "Some ''u3''"
       and users = "[\<lparr>user_id = ''u3'', fullName = ''Mike Johnson'',
                      user_title = Some ''Consultant'', hourlyRate = Some 175\<rparr>]"
       and now = 9
       and sec = "\<lparr>section_id = 1, responseId = 1, section_title = ''Executive Summary'',
                    content = '''', orderIndex = 0, assignedUserId = Some ''u2'',
                    isLocked = Some True, lockedByPmId = Some ''pm-a'', createdAt = 1,
                    updatedAt = 2\<rparr>"
       and val = "''u3''"]
  by simp

section \<open>Properties of the edit permission\<close>

text \<open>
  Claim C2. \<open>canEdit\<close> holds exactly when the actor is a proposal manager, or the section
  is not locked and is assigned to the actor. So for an assigned actor who is not a
  manager it holds exactly when the section is not locked; and once a lock request on the
  section has succeeded, the assignment is as before and \<open>canEdit\<close> is false for that
  actor, while it holds for the manager.
\<close>

theorem canEdit_iff_manager_or_unlocked_assignee:
  "canEdit isPM uid s = (isPM \<or> (isLocked s \<noteq> Some True \<and> assignedUserId s = Some uid))
   \<and> (\<not> isPM \<and> assignedUserId s = Some uid \<longrightarrow> canEdit isPM uid s = (isLocked s \<noteq> Some True))
   \<and> (\<forall>users tbl mgr now s' tbl'.
         assignedUserId s = Some uid
         \<and> find (\<lambda>x. section_id x = section_id s) tbl = Some s
         \<and> toggleLockMutation users tbl mgr (section_id s) True now = (Inr s', tbl')
       \<longrightarrow> assignedUserId s' = Some uid \<and> \<not> canEdit False uid s' \<and> canEdit True mgr s')"
proof -
  have a: "canEdit isPM uid s = (isPM \<or> (isLocked s \<noteq> Some True \<and> assignedUserId s = Some uid))"
    by (simp add: canEdit_def js_true_def)
  have c: "assignedUserId s' = Some uid \<and> \<not> canEdit False uid s' \<and> canEdit True mgr s'"
    if asg: "assignedUserId s = Some uid"
      and found: "find (\<lambda>x. section_id x = section_id s) tbl = Some s"
      and eq: "toggleLockMutation users tbl mgr (section_id s) True now = (Inr s', tbl')"
    for users tbl mgr now s' tbl'
  proof -
    from toggleLock_Inr [OF eq] found
    have s': "s' = apply_patch (toggleLock_body mgr True) now s" by auto
    show ?thesis
      by (simp add: s' canEdit_def js_true_def toggleLock_fields asg)
  qed
  from a c show ?thesis by blast
qed

theorem canEdit_iff_manager_or_unlocked_assignee_witness:
  "canEdit False ''u2''
     \<lparr>section_id = 1, responseId = 1, section_title = ''Executive Summary'', content = '''',
      orderIndex = 0, assignedUserId = Some ''u2'', isLocked = Some False,
      lockedByPmId = None, createdAt = 1, updatedAt = 2\<rparr>
   \<and> toggleLockMutation
       [\<lparr>user_id = ''pm-a'', fullName = ''Jane Doe'', user_title = Some ''Proposal Manager'',
         hourlyRate = Some 0\<rparr>]
       [\<lparr>section_id = 1, responseId = 1, section_title = ''Executive Summary'', content = '''',
         orderIndex = 0, assignedUserId = Some ''u2'', isLocked = Some False,
         lockedByPmId = None, createdAt = 1, updatedAt = 2\<rparr>]
       ''pm-a'' 1 True 9
     = (Inr \<lparr>section_id = 1, responseId = 1, section_title = ''Executive Summary'',
             content = '''', orderIndex = 0, assignedUserId = Some ''u2'', isLocked = Some True,
             lockedByPmId = Some ''pm-a'', createdAt = 1, updatedAt = 9\<rparr>,
        [\<lparr>section_id = 1, responseId = 1, section_title = ''Executive Summary'',
          content = '''', orderIndex = 0, assignedUserId = Some ''u2'', isLocked = Some True,
          lockedByPmId = Some ''pm-a'', createdAt = 1, updatedAt = 9\<rparr>])
   \<and> \<not> canEdit False ''u2''
       \<lparr>section_id = 1, responseId = 1, section_title = ''Executive Summary'', content = '''',
        orderIndex = 0, assignedUserId = Some ''u2'', isLocked = Some True,
        lockedByPmId = Some ''pm-a'', createdAt = 1, updatedAt = 9\<rparr>
   \<and> canEdit True ''pm-a''
       \<lparr>section_id = 1, responseId = 1, section_title = ''Executive Summary'', content = '''',
        orderIndex = 0, assignedUserId = Some ''u2'', isLocked = Some True,
        lockedByPmId = Some ''pm-a'', createdAt = 1, updatedAt = 9\<rparr>"
proof -
  let ?users = "[\<lparr>user_id = ''pm-a'', fullName = ''Jane Doe'',
                   user_title = Some ''Proposal Manager'', hourlyRate = Some 0\<rparr>]"
  let ?s = "\<lparr>section_id = 1, responseId = 1, section_title = ''Executive Summary'',
              content = '''', orderIndex = 0, assignedUserId = Some ''u2'',
              isLocked = Some False, lockedByPmId = None, createdAt = 1, updatedAt = 2\<rparr>"
  let ?s' = "\<lparr>section_id = 1, responseId = 1, section_title = ''Executive Summary'',
               content = '''', orderIndex = 0, assignedUserId = Some ''u2'',
               isLocked = Some True, lockedByPmId = Some ''pm-a'', createdAt = 1,
               updatedAt = 9\<rparr>"
  have asg: "assignedUserId ?s = Some ''u2''" by simp
  have found: "find (\<lambda>x. section_id x = section_id ?s) [?s] = Some ?s" by simp
  have lock: "toggleLockMutation ?users [?s] ''pm-a'' (section_id ?s) True 9 = (Inr ?s', [?s'])"
    by (simp add: toggleLockMutation_def patch_response_section_def updateResponseSection_def
        Let_def references_user_def toggleLock_body_def empty_patch_def apply_patch_def)
  have before: "canEdit False ''u2'' ?s"
    using canEdit_iff_manager_or_unlocked_assignee
      [where isPM = False and uid = "''u2''" and s = ?s]
    by simp
  have after: "\<not> canEdit False ''u2'' ?s' \<and> canEdit True ''pm-a'' ?s'"
    using canEdit_iff_manager_or_unlocked_assignee
      [where isPM = False and uid = "''u2''" and s = ?s] asg found lock
    by blast
  from lock have lock1: "toggleLockMutation ?users [?s] ''pm-a'' 1 True 9 = (Inr ?s', [?s'])"
    by simp
  from before lock1 after show ?thesis by blast
qed

end
